theory Spec2Isabelle
  imports Main "HOL-Library.Multiset"
begin

section \<open>Data model\<close>

text \<open>
  The inventory application keeps a list of items; each item owns an ordered list of
  transactions. JavaScript numbers are modelled as mathematical integers, which is exact
  for every integer below \<open>2^53\<close>; strings are lists of characters in the ASCII range.
\<close>

text \<open>
  Modelled from the spec: the declarations of \<open>Item\<close> and \<open>Transaction\<close>. The components
  import them from \<open>types.ts\<close>, which is not among the sources; the fields are those of
  the specification's data model, with \<open>modelName\<close> and \<open>application\<close> of an item, which
  the components read and write. The type of a transaction is \<open>'purchase'\<close> (inbound) or
  \<open>'release'\<close> (outbound), that of an item \<open>'part'\<close> or \<open>'product'\<close>. A field that may
  be left out (\<open>remarks?\<close>, \<open>serialNumber?\<close>, ...) is an option.
\<close>

datatype transaction_type = Purchase | Release

datatype item_type = Part | Product

record transaction =
  t_id :: string
  t_type :: transaction_type
  quantity :: int
  date :: string
  t_remarks :: "string option"
  t_modelName :: "string option"
  userId :: "string option"
  serialNumber :: "string option"
  customerName :: "string option"
  address :: "string option"
  phoneNumber :: "string option"

record item =
  i_id :: string
  i_type :: item_type
  code :: string
  name :: string
  drawingNumber :: "string option"
  spec :: "string option"
  i_remarks :: "string option"
  registrationDate :: string
  i_modelName :: "string option"
  application :: "string option"
  transactions :: "transaction list"

section \<open>Ledger model: derived stock\<close>

text \<open>
  \<open>calculateStock\<close> (App.tsx): \<open>item.transactions.reduce((acc, t) => t.type === 'purchase'
  ? acc + t.quantity : acc - t.quantity, 0)\<close>. \<open>reduce\<close> with an initial value is a left fold.
\<close>

definition stockStep :: "int \<Rightarrow> transaction \<Rightarrow> int" where
  "stockStep acc t = (if t_type t = Purchase then acc + quantity t else acc - quantity t)"

definition calculateStock :: "item \<Rightarrow> int" where
  "calculateStock it = foldl stockStep 0 (transactions it)"



section \<open>Strings and numbers\<close>

text \<open>
  The character classes of the two regular expressions and of \<open>trim\<close>, on ASCII:
  \<open>\d\<close> is \<open>[0-9]\<close>; \<open>\s\<close> and the white space that \<open>trim\<close> strips are TAB, LF, VT, FF,
  CR and SPACE; \<open>.\<close> is every character except the line terminators LF and CR.
\<close>

definition isDigit :: "char \<Rightarrow> bool" where
  "isDigit c = (c \<in> set ''0123456789'')"

definition isAlpha :: "char \<Rightarrow> bool" where
  "isAlpha c = (c \<in> set ''abcdefghijklmnopqrstuvwxyzABCDEFGHIJKLMNOPQRSTUVWXYZ'')"

definition isSpace :: "char \<Rightarrow> bool" where
  "isSpace c = (c \<in> {CHR 0x09, CHR 0x0A, CHR 0x0B, CHR 0x0C, CHR 0x0D, CHR '' ''})"

definition isDot :: "char \<Rightarrow> bool" where
  "isDot c = (c \<noteq> CHR 0x0A \<and> c \<noteq> CHR 0x0D)"

text \<open>\<open>String.prototype.toUpperCase\<close> on ASCII: the 26 lower-case letters move up.\<close>

definition upperChar :: "char \<Rightarrow> char" where
  "upperChar c =
     (case map_of (zip ''abcdefghijklmnopqrstuvwxyz'' ''ABCDEFGHIJKLMNOPQRSTUVWXYZ'') c of
        Some u \<Rightarrow> u | None \<Rightarrow> c)"

definition toUpperCase :: "string \<Rightarrow> string" where
  "toUpperCase s = map upperChar s"

definition trim :: "string \<Rightarrow> string" where
  "trim s = rev (dropWhile isSpace (rev (dropWhile isSpace s)))"

definition includesChar :: "string \<Rightarrow> char \<Rightarrow> bool" where
  "includesChar s c = (c \<in> set s)"

text \<open>\<open>padStart(n, '0')\<close>: zeros on the left up to length \<open>n\<close>, nothing when already long enough.\<close>

definition padStart :: "nat \<Rightarrow> string \<Rightarrow> string" where
  "padStart n s = replicate (n - length s) (CHR ''0'') @ s"

text \<open>Decimal digits of a number: \<open>Number.prototype.toString\<close> on integers.\<close>

definition digitChar :: "nat \<Rightarrow> char" where
  "digitChar d = ''0123456789'' ! d"

definition digitVal :: "char \<Rightarrow> nat" where
  "digitVal c = (case map_of (zip ''0123456789'' [0, 1, 2, 3, 4, 5, 6, 7, 8, 9]) c of
                   Some d \<Rightarrow> d | None \<Rightarrow> 0)"

fun natToString :: "nat \<Rightarrow> string" where
  "natToString n = (if n < 10 then [digitChar n] else natToString (n div 10) @ [digitChar (n mod 10)])"

declare natToString.simps [simp del]

definition numToString :: "int \<Rightarrow> string" where
  "numToString i = (if i < 0 then CHR ''-'' # natToString (nat (- i)) else natToString (nat i))"

text \<open>The value of a run of decimal digits, most significant first.\<close>

definition digitsValue :: "string \<Rightarrow> nat" where
  "digitsValue ds = foldl (\<lambda>a c. 10 * a + digitVal c) 0 ds"

text \<open>
  \<open>parseInt(s, 10)\<close>: leading white space is skipped, one sign is read, then the longest
  run of digits; with no digit the result is \<open>NaN\<close>, here \<open>None\<close>. Whatever follows the
  digits is ignored.
\<close>

definition parseInt :: "string \<Rightarrow> int option" where
  "parseInt s =
     (let r = dropWhile isSpace s;
          neg = (r \<noteq> [] \<and> hd r = CHR ''-'');
          r' = (if r \<noteq> [] \<and> (hd r = CHR ''-'' \<or> hd r = CHR ''+'') then tl r else r);
          ds = takeWhile isDigit r'
      in if ds = [] then None
         else Some (if neg then - int (digitsValue ds) else int (digitsValue ds)))"

text \<open>\<open>parseInt(s, 10) || 0\<close>: \<open>NaN\<close> and \<open>0\<close> are both falsy.\<close>

definition parseIntOrZero :: "string \<Rightarrow> int" where
  "parseIntOrZero s = (case parseInt s of None \<Rightarrow> 0 | Some n \<Rightarrow> n)"

section \<open>Regular expressions as backtracking matchers\<close>

text \<open>
  Each quantifier is a matcher in continuation-passing style: it consumes a prefix of the
  remaining input, hands the consumed text and the rest to its continuation, and moves to
  its next choice when the continuation fails. A greedy quantifier tries the longest
  prefix first, a lazy one the shortest, in the order ECMAScript's backtracking does.
\<close>

fun starGreedy :: "(char \<Rightarrow> bool) \<Rightarrow> (string \<Rightarrow> string \<Rightarrow> 'a option) \<Rightarrow> string \<Rightarrow> string \<Rightarrow> 'a option" where
  "starGreedy p k acc [] = k acc []"
| "starGreedy p k acc (c # cs) =
     (if p c then (case starGreedy p k (acc @ [c]) cs of
                     Some r \<Rightarrow> Some r
                   | None \<Rightarrow> k acc (c # cs))
      else k acc (c # cs))"

definition plusGreedy :: "(char \<Rightarrow> bool) \<Rightarrow> (string \<Rightarrow> string \<Rightarrow> 'a option) \<Rightarrow> string \<Rightarrow> 'a option" where
  "plusGreedy p k s =
     (case s of [] \<Rightarrow> None | c # cs \<Rightarrow> if p c then starGreedy p k [c] cs else None)"

fun plusLazy :: "(char \<Rightarrow> bool) \<Rightarrow> (string \<Rightarrow> string \<Rightarrow> 'a option) \<Rightarrow> string \<Rightarrow> string \<Rightarrow> 'a option" where
  "plusLazy p k acc [] = None"
| "plusLazy p k acc (c # cs) =
     (if p c then (case k (acc @ [c]) cs of
                     Some r \<Rightarrow> Some r
                   | None \<Rightarrow> plusLazy p k (acc @ [c]) cs)
      else None)"

definition lit :: "char \<Rightarrow> (string \<Rightarrow> 'a option) \<Rightarrow> string \<Rightarrow> 'a option" where
  "lit ch k s = (case s of [] \<Rightarrow> None | c # cs \<Rightarrow> if c = ch then k cs else None)"

text \<open>An optional group \<open>(...)?\<close>: first with the group, then without it.\<close>

definition optGreedy ::
  "((string \<Rightarrow> string \<Rightarrow> 'a option) \<Rightarrow> string \<Rightarrow> 'a option) \<Rightarrow> (string option \<Rightarrow> string \<Rightarrow> 'a option) \<Rightarrow> string \<Rightarrow> 'a option" where
  "optGreedy m k s = (case m (\<lambda>g r. k (Some g) r) s of Some r \<Rightarrow> Some r | None \<Rightarrow> k None s)"

definition atEnd :: "'a \<Rightarrow> string \<Rightarrow> 'a option" where
  "atEnd v r = (if r = [] then Some v else None)"

text \<open>
  \<open>/^(.+?)(\d+)\s*~\s*(.+?)?(\d+)$/\<close> of \<open>parseSerialRange\<close>, read right to left:
  \<open>rangeEnd\<close> is \<open>(.+?)?(\d+)$\<close>, \<open>rangeTail\<close> is \<open>\s*~\s*\<close> followed by it, and \<open>rangeRegex\<close>
  puts \<open>^(.+?)(\d+)\<close> in front. The result holds the four capture groups, the third
  being absent when the optional group did not take part.
\<close>

definition rangeEnd :: "string \<Rightarrow> string \<Rightarrow> string \<Rightarrow> (string \<times> string \<times> string option \<times> string) option" where
  "rangeEnd g1 g2 =
     optGreedy (\<lambda>k. plusLazy isDot k []) (\<lambda>g3. plusGreedy isDigit (\<lambda>g4. atEnd (g1, g2, g3, g4)))"

definition rangeTail :: "string \<Rightarrow> string \<Rightarrow> string \<Rightarrow> (string \<times> string \<times> string option \<times> string) option" where
  "rangeTail g1 g2 =
     starGreedy isSpace (\<lambda>_. lit (CHR ''~'') (starGreedy isSpace (\<lambda>_. rangeEnd g1 g2) [])) []"

definition rangeRegex :: "string \<Rightarrow> (string \<times> string \<times> string option \<times> string) option" where
  "rangeRegex s = plusLazy isDot (\<lambda>g1. plusGreedy isDigit (\<lambda>g2. rangeTail g1 g2)) [] s"

text \<open>\<open>/^([a-zA-Z]+)(\d+)$/\<close> of \<open>suggestNextSerial\<close>.\<close>

definition serialRegex :: "string \<Rightarrow> (string \<times> string) option" where
  "serialRegex s = plusGreedy isAlpha (\<lambda>g1. plusGreedy isDigit (\<lambda>g2. atEnd (g1, g2))) s"

section \<open>Serial allocator\<close>

text \<open>
  \<open>suggestNextSerial\<close> (ItemDetailModal): the \<open>forEach\<close> over the used serials carries the
  two mutable variables \<open>maxNum\<close> and \<open>currentPrefix\<close>, here the state of a left fold.
  \<open>currentPrefix\<close> is assigned for every serial that matches, \<open>maxNum\<close> only when the
  parsed number is larger.
\<close>

definition suggestStep :: "int \<times> string \<Rightarrow> string \<Rightarrow> int \<times> string" where
  "suggestStep st s =
     (case serialRegex s of
        None \<Rightarrow> st
      | Some (g1, g2) \<Rightarrow>
          (case parseInt g2 of
             None \<Rightarrow> (fst st, g1)
           | Some num \<Rightarrow> (if num > fst st then num else fst st, g1)))"

definition suggestNextSerial :: "string list \<Rightarrow> string" where
  "suggestNextSerial usedSerials =
     (if usedSerials = [] then ''SN00001''
      else let st = foldl suggestStep (0, ''SN'') usedSerials;
               nextNum = fst st + 1;
               padLength = max 5 (length (numToString nextNum))
           in snd st @ padStart padLength (numToString nextNum))"

text \<open>
  \<open>parseSerialRange\<close> (ItemDetailModal). The thrown \<open>Error\<close> is the left summand. The
  \<open>for\<close> loop from \<open>startNum\<close> to \<open>endNum\<close> is \<open>rangeLoop\<close>, which terminates because the
  distance to \<open>endNum\<close> shrinks.
\<close>

datatype error = RangeTooLarge

function rangeLoop :: "int \<Rightarrow> int \<Rightarrow> string \<Rightarrow> nat \<Rightarrow> string list \<Rightarrow> string list" where
  "rangeLoop i endNum prefix padLength results =
     (if i \<le> endNum
      then rangeLoop (i + 1) endNum prefix padLength
             (results @ [prefix @ padStart padLength (numToString i)])
      else results)"
  by pat_completeness auto
termination
  by (relation "measure (\<lambda>(i, endNum, prefix, padLength, results). nat (endNum + 1 - i))") auto

declare rangeLoop.simps [simp del]

definition parseSerialRange :: "string \<Rightarrow> error + string list" where
  "parseSerialRange input =
     (case rangeRegex input of
        None \<Rightarrow> Inr [trim input]
      | Some (prefix, startNumStr, g3, endNumStr) \<Rightarrow>
          (case (parseInt startNumStr, parseInt endNumStr) of
             (Some startNum, Some endNum) \<Rightarrow>
               if startNum > endNum then Inr [trim input]
               else if endNum - startNum \<ge> 100 then Inl RangeTooLarge
               else Inr (rangeLoop startNum endNum prefix (length startNumStr) [])
           | _ \<Rightarrow> Inr [trim input]))"

text \<open>
  A character of a serial prefix in the usual sense: not a digit, not white space, not the
  range delimiter. It is used to state what the range expression does on well-formed input.
\<close>

definition plainChar :: "char \<Rightarrow> bool" where
  "plainChar c = (\<not> isDigit c \<and> \<not> isSpace c \<and> c \<noteq> CHR ''~'')"

text \<open>A ledger row with the mandatory fields and a serial number, for worked examples.\<close>

definition ledgerRow :: "string \<Rightarrow> transaction_type \<Rightarrow> int \<Rightarrow> string option \<Rightarrow> transaction" where
  "ledgerRow i ty q sn =
     \<lparr>t_id = i, t_type = ty, quantity = q, date = ''2024-01-01T00:00:00.000Z'',
      t_remarks = None, t_modelName = None, userId = None, serialNumber = sn,
      customerName = None, address = None, phoneNumber = None\<rparr>"

definition catalogueItem :: "string \<Rightarrow> item_type \<Rightarrow> string \<Rightarrow> transaction list \<Rightarrow> item" where
  "catalogueItem i ty c ts =
     \<lparr>i_id = i, i_type = ty, code = c, name = ''WIDGET'', drawingNumber = None, spec = None,
      i_remarks = None, registrationDate = ''2024-01-01'', i_modelName = None,
      application = None, transactions = ts\<rparr>"





section \<open>Application state\<close>

text \<open>
  The React state of \<open>App\<close> and of \<open>ItemDetailModal\<close> as one record. The modal is rendered
  for the item whose id is \<open>selectedItemId\<close>; its props \<open>item\<close> and \<open>allUsedSerials\<close> are
  computed from \<open>items\<close>. \<open>Partial<Transaction>\<close> and \<open>Partial<Item>\<close> are records of options:
  \<open>None\<close> is a key that is absent, and for a field that may hold \<open>undefined\<close> the inner
  option is the value.
\<close>

datatype role = Admin | ProductOnly

definition ADMIN_PASSWORD :: string where
  "ADMIN_PASSWORD = ''0000''"

definition PRODUCT_ONLY_PASSWORD :: string where
  "PRODUCT_ONLY_PASSWORD = ''1111''"

record transaction_patch =
  p_id :: "string option"
  p_type :: "transaction_type option"
  p_quantity :: "int option"
  p_date :: "string option"
  p_remarks :: "string option"
  p_modelName :: "string option"
  p_userId :: "string option"
  p_serialNumber :: "string option"
  p_customerName :: "string option"
  p_address :: "string option"
  p_phoneNumber :: "string option"

record item_patch =
  e_name :: "string option"
  e_code :: "string option"
  e_modelName :: "string option option"
  e_application :: "string option option"
  e_drawingNumber :: "string option option"
  e_spec :: "string option option"
  e_remarks :: "string option option"
  e_registrationDate :: "string option"

datatype action_type = ActItem | ActTransSave | ActTransDelete

record password_prompt =
  a_type :: action_type
  targetId :: "string option"

datatype edit_field =
  FQuantity | FModelName | FUserId | FSerialNumber | FCustomerName | FPhoneNumber | FAddress | FRemarks

datatype alert =
  AlertError error
  | AlertDuplicates "string list"
  | AlertInvalidQuantity
  | AlertOverStock
  | AlertRegistered nat
  | AlertWrongPassword

record state =
  items :: "item list"
  authRole :: "role option"
  selectedItemId :: "string option"
  itemToDelete :: "string option"
  deletePassword :: string
  transactionType :: transaction_type
  f_quantity :: string
  transRemarks :: string
  transModelName :: string
  transUserId :: string
  f_serialNumber :: string
  f_customerName :: string
  f_address :: string
  f_phoneNumber :: string
  isEditing :: bool
  editingTransactionId :: "string option"
  transEditData :: transaction_patch
  showPasswordInput :: "password_prompt option"
  password :: string
  editFormData :: item_patch

text \<open>\<open>{ ...t, ...updatedData }\<close>: a key of the patch overrides the field.\<close>

definition orElse :: "'a option \<Rightarrow> 'a \<Rightarrow> 'a" where
  "orElse u v = (case u of Some w \<Rightarrow> w | None \<Rightarrow> v)"

definition orKeep :: "'a option \<Rightarrow> 'a option \<Rightarrow> 'a option" where
  "orKeep u v = (case u of Some w \<Rightarrow> Some w | None \<Rightarrow> v)"

definition mergeTransaction :: "transaction \<Rightarrow> transaction_patch \<Rightarrow> transaction" where
  "mergeTransaction t u =
     \<lparr>t_id = orElse (p_id u) (t_id t), t_type = orElse (p_type u) (t_type t),
      quantity = orElse (p_quantity u) (quantity t), date = orElse (p_date u) (date t),
      t_remarks = orKeep (p_remarks u) (t_remarks t),
      t_modelName = orKeep (p_modelName u) (t_modelName t),
      userId = orKeep (p_userId u) (userId t),
      serialNumber = orKeep (p_serialNumber u) (serialNumber t),
      customerName = orKeep (p_customerName u) (customerName t),
      address = orKeep (p_address u) (address t),
      phoneNumber = orKeep (p_phoneNumber u) (phoneNumber t)\<rparr>"

definition mergeItem :: "item \<Rightarrow> item_patch \<Rightarrow> item" where
  "mergeItem it u =
     it\<lparr>name := orElse (e_name u) (name it), code := orElse (e_code u) (code it),
        i_modelName := orElse (e_modelName u) (i_modelName it),
        application := orElse (e_application u) (application it),
        drawingNumber := orElse (e_drawingNumber u) (drawingNumber it),
        spec := orElse (e_spec u) (spec it),
        i_remarks := orElse (e_remarks u) (i_remarks it),
        registrationDate := orElse (e_registrationDate u) (registrationDate it)\<rparr>"

section \<open>Operations of App\<close>

text \<open>
  \<open>generateId\<close> reads the clock and a random number; the identifiers and the time stamps a
  handler obtains are parameters of the model. The remark of the seeded transaction is
  the source's literal, in UTF-8.
\<close>

definition initialRemark :: string where
  "initialRemark = [CHR 0xEC, CHR 0xB4, CHR 0x88, CHR 0xEA, CHR 0xB8, CHR 0xB0, CHR 0x20, CHR 0xEC, CHR 0x88, CHR 0x98, CHR 0xEB, CHR 0x9F, CHR 0x89, CHR 0x20, CHR 0xEB, CHR 0x93, CHR 0xB1, CHR 0xEB, CHR 0xA1, CHR 0x9D]"

definition handleAddItem :: "string \<Rightarrow> string \<Rightarrow> string \<Rightarrow> item \<Rightarrow> int \<Rightarrow> item list \<Rightarrow> item list" where
  "handleAddItem itemId transId now itemData initialQuantity prev =
     (let newItem = itemData\<lparr>i_id := itemId, transactions := []\<rparr>;
          newItem' = (if initialQuantity > 0
                      then newItem\<lparr>transactions :=
                             [\<lparr>t_id = transId, t_type = Purchase, quantity = initialQuantity,
                               date = now, t_remarks = Some initialRemark, t_modelName = None,
                               userId = None, serialNumber = None, customerName = None,
                               address = None, phoneNumber = None\<rparr>]\<rparr>
                      else newItem)
      in newItem' # prev)"

definition handleUpdateItem :: "string \<Rightarrow> item_patch \<Rightarrow> item list \<Rightarrow> item list" where
  "handleUpdateItem itemId updatedData prev =
     map (\<lambda>it. if i_id it = itemId then mergeItem it updatedData else it) prev"

definition App_handleAddTransaction :: "string \<Rightarrow> string \<Rightarrow> transaction \<Rightarrow> item list \<Rightarrow> item list" where
  "App_handleAddTransaction newId itemId tr prev =
     map (\<lambda>it. if i_id it = itemId
               then it\<lparr>transactions := transactions it @ [tr\<lparr>t_id := newId\<rparr>]\<rparr> else it) prev"

definition handleUpdateTransaction :: "string \<Rightarrow> string \<Rightarrow> transaction_patch \<Rightarrow> item list \<Rightarrow> item list" where
  "handleUpdateTransaction itemId transactionId updatedData prev =
     map (\<lambda>it. if i_id it = itemId
               then it\<lparr>transactions :=
                      map (\<lambda>t. if t_id t = transactionId then mergeTransaction t updatedData else t)
                        (transactions it)\<rparr>
               else it) prev"

definition handleDeleteTransaction :: "string \<Rightarrow> string \<Rightarrow> item list \<Rightarrow> item list" where
  "handleDeleteTransaction itemId transactionId prev =
     map (\<lambda>it. if i_id it = itemId
               then it\<lparr>transactions := filter (\<lambda>t. t_id t \<noteq> transactionId) (transactions it)\<rparr>
               else it) prev"

text \<open>
  \<open>allUsedSerials\<close>: the upper-cased serial of every transaction that has a non-empty one,
  in order, through \<open>new Set\<close>, which keeps the first occurrence of each value.
\<close>

definition dedupFirst :: "'a list \<Rightarrow> 'a list" where
  "dedupFirst xs = rev (remdups (rev xs))"

definition serialOf :: "transaction \<Rightarrow> string list" where
  "serialOf t = (case serialNumber t of None \<Rightarrow> [] | Some s \<Rightarrow> if s = [] then [] else [toUpperCase s])"

definition allUsedSerials :: "item list \<Rightarrow> string list" where
  "allUsedSerials its = dedupFirst (concat (map (\<lambda>it. concat (map serialOf (transactions it))) its))"

definition selectedItem :: "state \<Rightarrow> item option" where
  "selectedItem st =
     (case selectedItemId st of None \<Rightarrow> None | Some sel \<Rightarrow> find (\<lambda>i. i_id i = sel) (items st))"

definition requiredPassword :: "role option \<Rightarrow> string" where
  "requiredPassword r = (if r = Some Admin then ADMIN_PASSWORD else PRODUCT_ONLY_PASSWORD)"


section \<open>Operations of ItemDetailModal\<close>

text \<open>\<open>currentStock\<close>: the modal's own copy of the stock fold, over the \<open>item\<close> prop.\<close>

definition currentStock :: "item \<Rightarrow> int" where
  "currentStock it =
     foldl (\<lambda>acc t. if t_type t = Purchase then acc + quantity t else acc - quantity t) 0
       (transactions it)"

definition isSerialDuplicate :: "state \<Rightarrow> bool" where
  "isSerialDuplicate st =
     (if trim (f_serialNumber st) = [] \<or> includesChar (f_serialNumber st) (CHR ''~'') then False
      else toUpperCase (f_serialNumber st) \<in> set (allUsedSerials (items st)))"

text \<open>
  The steps of \<open>handleAddTransaction\<close>, in the order of the source. \<open>isRange\<close> is set exactly
  when the item is a product and the serial input contains the delimiter, and then the
  target serials are what \<open>parseSerialRange\<close> returns for the upper-cased input; otherwise
  the single target is the upper-cased, trimmed input.
\<close>

definition isRange :: "item \<Rightarrow> state \<Rightarrow> bool" where
  "isRange it st = (i_type it = Product \<and> includesChar (f_serialNumber st) (CHR ''~''))"

definition targetSerials :: "item \<Rightarrow> state \<Rightarrow> error + string list" where
  "targetSerials it st =
     (if isRange it st then parseSerialRange (toUpperCase (f_serialNumber st))
      else Inr [trim (toUpperCase (f_serialNumber st))])"

definition duplicatesOf :: "string list \<Rightarrow> string list \<Rightarrow> string list" where
  "duplicatesOf used ts = filter (\<lambda>s. s \<noteq> [] \<and> s \<in> set used) ts"

definition submissionCount :: "item \<Rightarrow> state \<Rightarrow> string list \<Rightarrow> int" where
  "submissionCount it st ts =
     (if isRange it st then int (length ts) else parseIntOrZero (f_quantity st))"

definition rangeTransaction :: "string \<Rightarrow> state \<Rightarrow> string \<Rightarrow> transaction" where
  "rangeTransaction now st s =
     \<lparr>t_id = [], t_type = transactionType st, quantity = 1, date = now,
      t_remarks = Some (transRemarks st), t_modelName = Some (transModelName st),
      userId = Some (transUserId st), serialNumber = Some s,
      customerName = Some (f_customerName st), address = Some (f_address st),
      phoneNumber = Some (f_phoneNumber st)\<rparr>"

definition singleTransaction :: "string \<Rightarrow> item \<Rightarrow> state \<Rightarrow> int \<Rightarrow> transaction" where
  "singleTransaction now it st cnt =
     \<lparr>t_id = [], t_type = transactionType st, quantity = cnt, date = now,
      t_remarks = Some (transRemarks st), t_modelName = Some (transModelName st),
      userId = Some (transUserId st),
      serialNumber = Some (if i_type it = Product then toUpperCase (f_serialNumber st) else []),
      customerName = Some (if i_type it = Product then f_customerName st else []),
      address = Some (if i_type it = Product then f_address st else []),
      phoneNumber = Some (if i_type it = Product then f_phoneNumber st else [])\<rparr>"

text \<open>
  \<open>targetSerials.forEach(s => onAddTransaction(...))\<close>: one call of the App's handler per
  serial, the \<open>k\<close>-th call with the \<open>k\<close>-th fresh identifier and time stamp.
\<close>

fun addEach :: "(nat \<Rightarrow> string) \<Rightarrow> (nat \<Rightarrow> string) \<Rightarrow> state \<Rightarrow> string \<Rightarrow> nat \<Rightarrow> string list \<Rightarrow> item list \<Rightarrow> item list" where
  "addEach ids now st itemId k [] its = its"
| "addEach ids now st itemId k (s # ss) its =
     addEach ids now st itemId (Suc k) ss
       (App_handleAddTransaction (ids k) itemId (rangeTransaction (now k) st s) its)"

definition resetForm :: "string list \<Rightarrow> state \<Rightarrow> state" where
  "resetForm suggestFrom st =
     st\<lparr>f_quantity := [], transRemarks := [], transModelName := [], transUserId := [],
        f_serialNumber := suggestNextSerial suggestFrom,
        f_customerName := [], f_address := [], f_phoneNumber := []\<rparr>"

definition Modal_handleAddTransaction :: "(nat \<Rightarrow> string) \<Rightarrow> (nat \<Rightarrow> string) \<Rightarrow> state \<Rightarrow> alert option \<times> state" where
  "Modal_handleAddTransaction ids now st =
     (case selectedItem st of
        None \<Rightarrow> (None, st)
      | Some it \<Rightarrow>
          (case targetSerials it st of
             Inl err \<Rightarrow> (Some (AlertError err), st)
           | Inr ts \<Rightarrow>
               let used = allUsedSerials (items st);
                   duplicates = duplicatesOf used ts;
                   cnt = submissionCount it st ts
               in if duplicates \<noteq> [] then (Some (AlertDuplicates (take 5 duplicates)), st)
                  else if cnt \<le> 0 then (Some AlertInvalidQuantity, st)
                  else if transactionType st = Release \<and> cnt > currentStock it
                       then (Some AlertOverStock, st)
                  else if isRange it st
                       then (Some (AlertRegistered (length ts)),
                             resetForm (used @ ts)
                               (st\<lparr>items := addEach ids now st (i_id it) 0 ts (items st)\<rparr>))
                  else (None,
                        resetForm (used @ ts)
                          (st\<lparr>items := App_handleAddTransaction (ids 0) (i_id it)
                                         (singleTransaction (now 0) it st cnt) (items st)\<rparr>))))"

text \<open>
  The edit of a transaction row: \<open>handleEditTransaction\<close> copies the row into the edit
  buffer, \<open>handleTransEditChange\<close> overwrites one key of it with the processed input
  (the number for \<open>quantity\<close>, upper case for \<open>serialNumber\<close>), \<open>handleSaveTransEdit\<close> and
  \<open>handleDeleteTrans\<close> open the password prompt.
\<close>

definition patchOf :: "transaction \<Rightarrow> transaction_patch" where
  "patchOf t =
     \<lparr>p_id = Some (t_id t), p_type = Some (t_type t), p_quantity = Some (quantity t),
      p_date = Some (date t), p_remarks = t_remarks t, p_modelName = t_modelName t,
      p_userId = userId t, p_serialNumber = serialNumber t, p_customerName = customerName t,
      p_address = address t, p_phoneNumber = phoneNumber t\<rparr>"

definition handleEditTransaction :: "transaction \<Rightarrow> state \<Rightarrow> state" where
  "handleEditTransaction t st = st\<lparr>editingTransactionId := Some (t_id t), transEditData := patchOf t\<rparr>"

fun setPatchField :: "edit_field \<Rightarrow> string \<Rightarrow> transaction_patch \<Rightarrow> transaction_patch" where
  "setPatchField FQuantity v prev = prev\<lparr>p_quantity := Some (parseIntOrZero v)\<rparr>"
| "setPatchField FSerialNumber v prev = prev\<lparr>p_serialNumber := Some (toUpperCase v)\<rparr>"
| "setPatchField FModelName v prev = prev\<lparr>p_modelName := Some v\<rparr>"
| "setPatchField FUserId v prev = prev\<lparr>p_userId := Some v\<rparr>"
| "setPatchField FCustomerName v prev = prev\<lparr>p_customerName := Some v\<rparr>"
| "setPatchField FPhoneNumber v prev = prev\<lparr>p_phoneNumber := Some v\<rparr>"
| "setPatchField FAddress v prev = prev\<lparr>p_address := Some v\<rparr>"
| "setPatchField FRemarks v prev = prev\<lparr>p_remarks := Some v\<rparr>"

definition handleTransEditChange :: "edit_field \<Rightarrow> string \<Rightarrow> state \<Rightarrow> state" where
  "handleTransEditChange fld v st = st\<lparr>transEditData := setPatchField fld v (transEditData st)\<rparr>"

definition handleSaveTransEdit :: "string \<Rightarrow> state \<Rightarrow> state" where
  "handleSaveTransEdit tId st =
     st\<lparr>showPasswordInput := Some \<lparr>a_type = ActTransSave, targetId = Some tId\<rparr>\<rparr>"


definition setPassword :: "string \<Rightarrow> state \<Rightarrow> state" where
  "setPassword v st = st\<lparr>password := v\<rparr>"

text \<open>
  \<open>handleActionConfirm\<close>: the password is compared first; on a mismatch the handler alerts
  and returns. Only after a match are the password and the prompt cleared and the
  pending action applied. A \<open>targetId\<close> counts when it is a non-empty string.
\<close>

definition applyAction :: "item \<Rightarrow> password_prompt \<Rightarrow> state \<Rightarrow> state \<Rightarrow> state" where
  "applyAction it a st st1 =
     (case a_type a of
        ActItem \<Rightarrow>
          st1\<lparr>items := handleUpdateItem (i_id it) (editFormData st) (items st), isEditing := False\<rparr>
      | ActTransSave \<Rightarrow>
          (case targetId a of
             None \<Rightarrow> st1
           | Some tid \<Rightarrow>
               if tid = [] then st1
               else st1\<lparr>items := handleUpdateTransaction (i_id it) tid (transEditData st) (items st),
                        editingTransactionId := None\<rparr>)
      | ActTransDelete \<Rightarrow>
          (case targetId a of
             None \<Rightarrow> st1
           | Some tid \<Rightarrow>
               if tid = [] then st1
               else st1\<lparr>items := handleDeleteTransaction (i_id it) tid (items st)\<rparr>))"

definition handleActionConfirm :: "state \<Rightarrow> alert option \<times> state" where
  "handleActionConfirm st =
     (case selectedItem st of
        None \<Rightarrow> (None, st)
      | Some it \<Rightarrow>
          if password st \<noteq> requiredPassword (authRole st) then (Some AlertWrongPassword, st)
          else let currentAction = showPasswordInput st;
                   st1 = st\<lparr>password := [], showPasswordInput := None\<rparr>
               in (None, case currentAction of None \<Rightarrow> st1 | Some a \<Rightarrow> applyAction it a st st1))"

text \<open>The two invariants of the data model, as predicates on the persisted collection.\<close>

definition allTransactions :: "item list \<Rightarrow> transaction list" where
  "allTransactions its = concat (map transactions its)"

definition quantitiesPositive :: "item list \<Rightarrow> bool" where
  "quantitiesPositive its = list_all (\<lambda>t. quantity t > 0) (allTransactions its)"

definition serialsUnique :: "item list \<Rightarrow> bool" where
  "serialsUnique its = distinct (concat (map serialOf (allTransactions its)))"

text \<open>A fresh modal state over a collection, for worked examples.\<close>

definition emptyPatch :: transaction_patch where
  "emptyPatch =
     \<lparr>p_id = None, p_type = None, p_quantity = None, p_date = None, p_remarks = None,
      p_modelName = None, p_userId = None, p_serialNumber = None, p_customerName = None,
      p_address = None, p_phoneNumber = None\<rparr>"

definition emptyItemPatch :: item_patch where
  "emptyItemPatch =
     \<lparr>e_name = None, e_code = None, e_modelName = None, e_application = None,
      e_drawingNumber = None, e_spec = None, e_remarks = None, e_registrationDate = None\<rparr>"

definition openModal :: "item list \<Rightarrow> string \<Rightarrow> transaction_type \<Rightarrow> string \<Rightarrow> string \<Rightarrow> state" where
  "openModal its sel ty sn qty =
     \<lparr>items = its, authRole = Some Admin, selectedItemId = Some sel, itemToDelete = None,
      deletePassword = [], transactionType = ty, f_quantity = qty, transRemarks = [],
      transModelName = [], transUserId = [], f_serialNumber = sn, f_customerName = [],
      f_address = [], f_phoneNumber = [], isEditing = False, editingTransactionId = None,
      transEditData = emptyPatch, showPasswordInput = None, password = [],
      editFormData = emptyItemPatch\<rparr>"

text \<open>
  What a submission adds, said without the loop: the rows of a range submission, one per
  serial, numbered from \<open>k\<close>; and the collection after appending rows to every item with
  the given id. A handler call counts as rejected when it raised an alert other than the
  registration notice and left the state as it was.
\<close>

definition rangeRows :: "(nat \<Rightarrow> string) \<Rightarrow> (nat \<Rightarrow> string) \<Rightarrow> state \<Rightarrow> nat \<Rightarrow> string list \<Rightarrow> transaction list" where
  "rangeRows ids now st k ss =
     map (\<lambda>(j, s). (rangeTransaction (now j) st s)\<lparr>t_id := ids j\<rparr>) (zip [k..<k + length ss] ss)"

definition appendRows :: "string \<Rightarrow> transaction list \<Rightarrow> item list \<Rightarrow> item list" where
  "appendRows itemId rows its =
     map (\<lambda>i. if i_id i = itemId then i\<lparr>transactions := transactions i @ rows\<rparr> else i) its"

definition rejected :: "alert option \<times> state \<Rightarrow> state \<Rightarrow> bool" where
  "rejected r st =
     (snd r = st \<and>
      (case fst r of None \<Rightarrow> False | Some (AlertRegistered n) \<Rightarrow> False | Some a \<Rightarrow> True))"

text \<open>Identifiers and time stamps for worked examples.\<close>

definition sampleIds :: "nat \<Rightarrow> string" where
  "sampleIds k = ''t-new-'' @ natToString k"

definition sampleNow :: "nat \<Rightarrow> string" where
  "sampleNow k = ''2024-06-01T09:00:00.000Z''"

text \<open>
  Worked examples: a part with ten units in stock; a product without history; a product
  that received \<open>SN00001\<close> with five units; a product with two serialised rows.
\<close>

definition widget :: item where
  "widget = catalogueItem ''i1'' Part ''CT1'' [ledgerRow ''t0'' Purchase 10 None]"

definition gadget :: item where
  "gadget = catalogueItem ''i2'' Product ''P1'' []"


definition gadget2 :: item where
  "gadget2 = catalogueItem ''i2'' Product ''P1''
     [ledgerRow ''t1'' Purchase 1 (Some ''SN00001''), ledgerRow ''t2'' Purchase 1 (Some ''SN00002'')]"

text \<open>
  The path of a user through the edit of one field of a row: open the row for editing,
  type the value, press save, type the password, confirm.
\<close>

definition editRow :: "transaction \<Rightarrow> edit_field \<Rightarrow> string \<Rightarrow> string \<Rightarrow> state \<Rightarrow> alert option \<times> state" where
  "editRow t fld v pw st =
     handleActionConfirm (setPassword pw (handleSaveTransEdit (t_id t)
       (handleTransEditChange fld v (handleEditTransaction t st))))"

section \<open>Persistence and the debounced push\<close>

text \<open>
  The effect of \<open>App\<close> that depends on \<open>items\<close>, with time made explicit: \<open>clock\<close> counts
  milliseconds, \<open>timer\<close> is the pending \<open>setTimeout\<close> (the time at which it fires and the
  collection it captured), \<open>localStore\<close> is the entry of \<open>localStorage\<close>, and \<open>pushes\<close> lists
  the collections that \<open>saveToServer\<close> has sent. When React runs the effect again it first
  runs the clean-up of the previous run, which clears that run's timer; the body then
  writes the local entry and, only for a non-empty collection, sets a new timer.
  \<open>saveToServer\<close> sends nothing when the store is not configured.
\<close>

record sync =
  s_items :: "item list"
  localStore :: "item list option"
  timer :: "(nat \<times> item list) option"
  clock :: nat
  pushes :: "item list list"
  kvConfigured :: bool

definition QUIET_PERIOD :: nat where
  "QUIET_PERIOD = 2000"

definition itemsEffect :: "sync \<Rightarrow> sync" where
  "itemsEffect s =
     (let cleaned = s\<lparr>timer := None\<rparr>;
          stored = cleaned\<lparr>localStore := Some (s_items s)\<rparr>
      in if length (s_items s) > 0
         then stored\<lparr>timer := Some (clock s + QUIET_PERIOD, s_items s)\<rparr>
         else stored)"

definition setItems :: "item list \<Rightarrow> sync \<Rightarrow> sync" where
  "setItems new s = itemsEffect (s\<lparr>s_items := new\<rparr>)"

definition saveToServer :: "item list \<Rightarrow> sync \<Rightarrow> sync" where
  "saveToServer data s = (if \<not> kvConfigured s then s else s\<lparr>pushes := pushes s @ [data]\<rparr>)"

text \<open>Time passes: a timer that has come due fires once and is gone.\<close>

definition advance :: "nat \<Rightarrow> sync \<Rightarrow> sync" where
  "advance dt s =
     (let s1 = s\<lparr>clock := clock s + dt\<rparr>
      in case timer s of
           None \<Rightarrow> s1
         | Some (due, data) \<Rightarrow>
             if due \<le> clock s1 then saveToServer data (s1\<lparr>timer := None\<rparr>) else s1)"

text \<open>A burst of changes: each change comes some time after the one before.\<close>

fun burst :: "(nat \<times> item list) list \<Rightarrow> sync \<Rightarrow> sync" where
  "burst [] s = s"
| "burst ((gap, new) # rest) s = burst rest (setItems new (advance gap s))"

definition startSync :: sync where
  "startSync = \<lparr>s_items = [], localStore = None, timer = None, clock = 0, pushes = [],
                 kvConfigured = True\<rparr>"

text \<open>
  The state right after a change: a timer is pending exactly when the collection is not
  empty, it holds that collection, and it is due one quiet period from now.
\<close>

definition settled :: "sync \<Rightarrow> bool" where
  "settled s = (timer s = (if s_items s = [] then None else Some (clock s + QUIET_PERIOD, s_items s)))"

text \<open>
  Typing into the serial and quantity inputs of the form: the serial input upper-cases
  what is typed (\<open>setSerialNumber(e.target.value.toUpperCase())\<close>).
\<close>

definition typeSerial :: "string \<Rightarrow> state \<Rightarrow> state" where
  "typeSerial v st = st\<lparr>f_serialNumber := toUpperCase v\<rparr>"

definition typeQuantity :: "string \<Rightarrow> state \<Rightarrow> state" where
  "typeQuantity v st = st\<lparr>f_quantity := v\<rparr>"

section \<open>Derived stock is the difference of the two sums\<close>






section \<open>What the range expression captures\<close>

lemma isDigit_not_space: "isDigit c \<Longrightarrow> \<not> isSpace c"
  by (auto simp: isDigit_def isSpace_def)

lemma isDigit_not_sign: "isDigit c \<Longrightarrow> c \<noteq> CHR ''-'' \<and> c \<noteq> CHR ''+'' \<and> c \<noteq> CHR ''~''"
  by (auto simp: isDigit_def)

lemma not_space_isDot: "\<not> isSpace c \<Longrightarrow> isDot c"
  by (auto simp: isDot_def isSpace_def)

lemma isDigit_isDot: "isDigit c \<Longrightarrow> isDot c"
  by (auto simp: isDot_def isDigit_def)

lemma starGreedy_longest:
  "list_all p ys \<Longrightarrow> zs = [] \<or> \<not> p (hd zs) \<Longrightarrow> k (acc @ ys) zs = Some r
    \<Longrightarrow> starGreedy p k acc (ys @ zs) = Some r"
proof (induction ys arbitrary: acc)
  case Nil
  then show ?case by (cases zs) auto
next
  case (Cons y ys)
  from Cons.prems have "starGreedy p k (acc @ [y]) (ys @ zs) = Some r"
    by (intro Cons.IH) auto
  with Cons.prems show ?case by simp
qed

lemma plusGreedy_longest:
  "ys \<noteq> [] \<Longrightarrow> list_all p ys \<Longrightarrow> zs = [] \<or> \<not> p (hd zs) \<Longrightarrow> k ys zs = Some r
    \<Longrightarrow> plusGreedy p k (ys @ zs) = Some r"
  using starGreedy_longest [of p "tl ys" zs k "[hd ys]" r]
  by (cases ys) (auto simp: plusGreedy_def)

lemma plusGreedy_no_start: "s = [] \<or> \<not> p (hd s) \<Longrightarrow> plusGreedy p k s = None"
  by (cases s) (auto simp: plusGreedy_def)

lemma plusLazy_shortest:
  "ys \<noteq> [] \<Longrightarrow> list_all p ys \<Longrightarrow> k (acc @ ys) zs = Some r
    \<Longrightarrow> (\<And>i. 0 < i \<Longrightarrow> i < length ys \<Longrightarrow> k (acc @ take i ys) (drop i ys @ zs) = None)
    \<Longrightarrow> plusLazy p k acc (ys @ zs) = Some r"
proof (induction ys arbitrary: acc)
  case Nil
  then show ?case by simp
next
  case (Cons y ys)
  show ?case
  proof (cases "ys = []")
    case True
    with Cons.prems show ?thesis by simp
  next
    case False
    have first: "k (acc @ [y]) (ys @ zs) = None"
      using Cons.prems(4) [of 1] False by simp
    have "plusLazy p k (acc @ [y]) (ys @ zs) = Some r"
    proof (rule Cons.IH [OF False])
      show "list_all p ys" using Cons.prems(2) by simp
      show "k ((acc @ [y]) @ ys) zs = Some r" using Cons.prems(3) by simp
      fix i assume "0 < i" "i < length ys"
      then show "k ((acc @ [y]) @ take i ys) (drop i ys @ zs) = None"
        using Cons.prems(4) [of "Suc i"] by simp
    qed
    with first Cons.prems(2) show ?thesis by simp
  qed
qed


lemma starGreedy_none: "s = [] \<or> \<not> p (hd s) \<Longrightarrow> starGreedy p k acc s = k acc s"
  by (cases s) auto

lemma rangeTail_tilde:
  assumes "r = [] \<or> \<not> isSpace (hd r)"
  shows "rangeTail g1 g2 (CHR ''~'' # r) = rangeEnd g1 g2 r"
  using assms by (simp add: rangeTail_def lit_def isSpace_def starGreedy_none)

lemma rangeRegex_start:
  assumes pA: "pA \<noteq> []" "list_all plainChar pA"
    and ds: "ds \<noteq> []" "list_all isDigit ds"
    and r: "r = [] \<or> \<not> isDigit (hd r)"
    and t: "rangeTail pA ds r = Some m"
  shows "rangeRegex (pA @ ds @ r) = Some m"
proof -
  let ?k = "\<lambda>g1. plusGreedy isDigit (\<lambda>g2. rangeTail g1 g2)"
  have dotA: "list_all isDot pA"
    using pA by (auto simp: list_all_iff plainChar_def not_space_isDot)
  have "plusLazy isDot ?k [] (pA @ (ds @ r)) = Some m"
  proof (rule plusLazy_shortest [OF pA(1) dotA])
    have "plusGreedy isDigit (\<lambda>g2. rangeTail pA g2) (ds @ r) = Some m"
      by (rule plusGreedy_longest) (use ds r t in simp_all)
    then show "?k ([] @ pA) (ds @ r) = Some m" by simp
    fix i assume i: "0 < i" "i < length pA"
    then have "\<not> isDigit (hd (drop i pA @ ds @ r))"
      using pA(2) by (simp add: hd_append hd_drop_conv_nth list_all_length plainChar_def)
    then show "?k ([] @ take i pA) (drop i pA @ ds @ r) = None"
      by (intro plusGreedy_no_start) simp
  qed
  then show ?thesis by (simp add: rangeRegex_def)
qed


text \<open>
  An end token of two or more bare digits: the lazy optional group takes the first digit,
  so the fourth group holds the digits after it.
\<close>

lemma rangeEnd_bare:
  assumes "isDigit d" "de \<noteq> []" "list_all isDigit de"
  shows "rangeEnd g1 g2 (d # de) = Some (g1, g2, Some [d], de)"
proof -
  let ?k = "\<lambda>g r. plusGreedy isDigit (\<lambda>g4. atEnd (g1, g2, Some g, g4)) r"
  have "?k [d] (de @ []) = Some (g1, g2, Some [d], de)"
    by (rule plusGreedy_longest) (use assms in \<open>simp_all add: atEnd_def\<close>)
  then show ?thesis
    using assms(1) by (simp add: rangeEnd_def optGreedy_def isDigit_isDot)
qed

lemma rangeRegex_bare_end:
  assumes pA: "pA \<noteq> []" "list_all plainChar pA"
    and ds: "ds \<noteq> []" "list_all isDigit ds"
    and de: "isDigit d" "de \<noteq> []" "list_all isDigit de"
  shows "rangeRegex (pA @ ds @ ''~'' @ d # de) = Some (pA, ds, Some [d], de)"
proof -
  have "rangeTail pA ds (''~'' @ d # de) = Some (pA, ds, Some [d], de)"
    using rangeTail_tilde [of "d # de" pA ds] rangeEnd_bare [OF de] de(1)
    by (simp add: isDigit_not_space)
  then show ?thesis
    by (intro rangeRegex_start [OF pA ds]) (simp_all add: isDigit_def)
qed

section \<open>Numbers, padding and the expansion loop\<close>

lemma parseInt_digits:
  assumes "ds \<noteq> []" "list_all isDigit ds"
  shows "parseInt ds = Some (int (digitsValue ds))"
proof -
  obtain d r where ds: "ds = d # r" using assms(1) by (cases ds) auto
  with assms(2) have d: "isDigit d" by simp
  have dw: "dropWhile isSpace ds = ds"
    using d ds by (simp add: isDigit_not_space)
  have tw: "takeWhile isDigit ds = ds"
    using assms(2) by (simp add: list_all_iff)
  have sign: "hd ds \<noteq> CHR ''-''" "hd ds \<noteq> CHR ''+''"
    using ds isDigit_not_sign [OF d] by simp_all
  show ?thesis
    unfolding parseInt_def Let_def dw by (simp add: sign tw assms(1))
qed

lemma rangeLoop_map:
  "rangeLoop i endNum prefix padLength results =
     results @ map (\<lambda>j. prefix @ padStart padLength (numToString j)) [i..endNum]"
proof (induction i endNum prefix padLength results rule: rangeLoop.induct)
  case (1 i endNum prefix padLength results)
  show ?case
  proof (cases "i \<le> endNum")
    case True
    then show ?thesis
      using "1.IH" by (subst rangeLoop.simps) (simp add: upto_rec1 [of i endNum])
  next
    case False
    then show ?thesis by (subst rangeLoop.simps) simp
  qed
qed

lemma trim_id:
  assumes "s \<noteq> []" "\<not> isSpace (hd s)" "\<not> isSpace (last s)"
  shows "trim s = s"
proof -
  have a: "dropWhile isSpace s = s" using assms by (cases s) auto
  have "rev s \<noteq> []" "\<not> isSpace (hd (rev s))"
    using assms by (simp_all add: hd_rev)
  then have "dropWhile isSpace (rev s) = rev s" by (cases "rev s") auto
  with a show ?thesis by (simp add: trim_def)
qed

section \<open>The end token's prefix plays no part\<close>


section \<open>What the serial expression captures, and the fold of the suggestion\<close>

lemma starGreedy_result:
  "starGreedy p k acc xs = Some r
    \<Longrightarrow> \<exists>ys zs. xs = ys @ zs \<and> list_all p ys \<and> k (acc @ ys) zs = Some r"
proof (induction xs arbitrary: acc)
  case Nil
  then show ?case by simp
next
  case (Cons x xs)
  show ?case
  proof (cases "p x \<and> starGreedy p k (acc @ [x]) xs \<noteq> None")
    case True
    then have "starGreedy p k (acc @ [x]) xs = Some r"
      using Cons.prems by (auto split: option.splits)
    from Cons.IH [OF this] obtain ys zs
      where "xs = ys @ zs" "list_all p ys" "k ((acc @ [x]) @ ys) zs = Some r" by blast
    then have "x # xs = (x # ys) @ zs \<and> list_all p (x # ys) \<and> k (acc @ x # ys) zs = Some r"
      using True by simp
    then show ?thesis by blast
  next
    case False
    then have "k (acc @ []) (x # xs) = Some r"
      using Cons.prems by (auto split: if_splits option.splits)
    then have "x # xs = [] @ (x # xs) \<and> list_all p [] \<and> k (acc @ []) (x # xs) = Some r"
      by simp
    then show ?thesis by blast
  qed
qed

lemma plusGreedy_result:
  assumes "plusGreedy p k xs = Some r"
  shows "\<exists>ys zs. xs = ys @ zs \<and> ys \<noteq> [] \<and> list_all p ys \<and> k ys zs = Some r"
proof -
  from assms obtain x xs' where x: "xs = x # xs'" "p x" "starGreedy p k [x] xs' = Some r"
    by (cases xs) (auto simp: plusGreedy_def split: if_splits)
  from starGreedy_result [OF x(3)] obtain ys zs
    where "xs' = ys @ zs" "list_all p ys" "k ([x] @ ys) zs = Some r" by blast
  with x have "xs = (x # ys) @ zs \<and> x # ys \<noteq> [] \<and> list_all p (x # ys) \<and> k (x # ys) zs = Some r"
    by simp
  then show ?thesis by blast
qed


lemma serialRegex_letters_digits:
  assumes "g1 \<noteq> []" "list_all isAlpha g1" "g2 \<noteq> []" "list_all isDigit g2"
  shows "serialRegex (g1 @ g2) = Some (g1, g2)"
proof -
  have "\<not> isAlpha (hd g2)"
    using assms(3,4) by (cases g2) (auto simp: isAlpha_def isDigit_def)
  moreover have "plusGreedy isDigit (\<lambda>g. atEnd (g1, g)) (g2 @ []) = Some (g1, g2)"
    by (rule plusGreedy_longest) (use assms in \<open>simp_all add: atEnd_def\<close>)
  ultimately show ?thesis
    unfolding serialRegex_def
    by (intro plusGreedy_longest) (use assms in simp_all)
qed





section \<open>Digits of a number and their value\<close>










section \<open>The suggested next serial\<close>




section \<open>Range expansion\<close>

text \<open>
  Whatever the expression captures, the second and fourth groups are non-empty runs of
  digits, so neither \<open>parseInt\<close> yields \<open>NaN\<close>, and the result of \<open>parseSerialRange\<close> is
  decided by the two numbers: the trimmed input when the first is larger, the error when
  they are 100 or more apart, the padded serials from the first to the second otherwise.
\<close>

lemma plusLazy_result:
  "plusLazy p k acc xs = Some r
    \<Longrightarrow> \<exists>ys zs. xs = ys @ zs \<and> ys \<noteq> [] \<and> list_all p ys \<and> k (acc @ ys) zs = Some r"
proof (induction xs arbitrary: acc)
  case Nil
  then show ?case by simp
next
  case (Cons x xs)
  then have px: "p x" by (auto split: if_splits)
  show ?case
  proof (cases "k (acc @ [x]) xs")
    case (Some r')
    with Cons.prems px have "k (acc @ [x]) xs = Some r" by simp
    then have "x # xs = [x] @ xs \<and> [x] \<noteq> [] \<and> list_all p [x] \<and> k (acc @ [x]) xs = Some r"
      using px by simp
    then show ?thesis by blast
  next
    case None
    with Cons.prems px have "plusLazy p k (acc @ [x]) xs = Some r" by simp
    from Cons.IH [OF this] obtain ys zs
      where "xs = ys @ zs" "list_all p ys" "k ((acc @ [x]) @ ys) zs = Some r" by blast
    then have "x # xs = (x # ys) @ zs \<and> x # ys \<noteq> [] \<and> list_all p (x # ys)
        \<and> k (acc @ x # ys) zs = Some r"
      using px by simp
    then show ?thesis by blast
  qed
qed

lemma rangeEnd_Some:
  assumes "rangeEnd g1 g2 r = Some (h1, h2, h3, h4)"
  shows "h1 = g1 \<and> h2 = g2 \<and> h4 \<noteq> [] \<and> list_all isDigit h4"
proof -
  let ?k = "\<lambda>g3. plusGreedy isDigit (\<lambda>g4. atEnd (g1, g2, g3, g4))"
  have fin: "?k g3 x = Some (h1, h2, h3, h4) \<Longrightarrow> h1 = g1 \<and> h2 = g2 \<and> h4 \<noteq> [] \<and> list_all isDigit h4"
    for g3 x
  proof -
    assume "?k g3 x = Some (h1, h2, h3, h4)"
    from plusGreedy_result [OF this] obtain d z
      where "d \<noteq> []" "list_all isDigit d" "atEnd (g1, g2, g3, d) z = Some (h1, h2, h3, h4)"
      by blast
    then show ?thesis by (auto simp: atEnd_def split: if_splits)
  qed
  show ?thesis
  proof (cases "plusLazy isDot (\<lambda>g r. ?k (Some g) r) [] r")
    case None
    with assms have "?k None r = Some (h1, h2, h3, h4)"
      by (simp add: rangeEnd_def optGreedy_def)
    then show ?thesis by (rule fin)
  next
    case (Some m)
    with assms have "plusLazy isDot (\<lambda>g r. ?k (Some g) r) [] r = Some (h1, h2, h3, h4)"
      by (simp add: rangeEnd_def optGreedy_def)
    from plusLazy_result [OF this] obtain ys zs
      where "?k (Some ([] @ ys)) zs = Some (h1, h2, h3, h4)" by blast
    then show ?thesis by (rule fin)
  qed
qed

lemma rangeTail_Some:
  assumes "rangeTail g1 g2 r = Some (h1, h2, h3, h4)"
  shows "h1 = g1 \<and> h2 = g2 \<and> h4 \<noteq> [] \<and> list_all isDigit h4"
proof -
  from starGreedy_result [OF assms [unfolded rangeTail_def]] obtain zs
    where "lit (CHR ''~'') (starGreedy isSpace (\<lambda>_. rangeEnd g1 g2) []) zs = Some (h1, h2, h3, h4)"
    by blast
  then obtain zs' where "starGreedy isSpace (\<lambda>_. rangeEnd g1 g2) [] zs' = Some (h1, h2, h3, h4)"
    by (cases zs) (auto simp: lit_def split: if_splits)
  from starGreedy_result [OF this] obtain r' where "rangeEnd g1 g2 r' = Some (h1, h2, h3, h4)"
    by blast
  then show ?thesis by (rule rangeEnd_Some)
qed

lemma rangeRegex_Some:
  assumes "rangeRegex s = Some (g1, g2, g3, g4)"
  shows "g1 \<noteq> [] \<and> g2 \<noteq> [] \<and> list_all isDigit g2 \<and> g4 \<noteq> [] \<and> list_all isDigit g4"
proof -
  from plusLazy_result [OF assms [unfolded rangeRegex_def]] obtain a r
    where a: "a \<noteq> []" "plusGreedy isDigit (\<lambda>g2. rangeTail ([] @ a) g2) r = Some (g1, g2, g3, g4)"
    by blast
  from plusGreedy_result [OF a(2)] obtain d z
    where d: "d \<noteq> []" "list_all isDigit d" "rangeTail ([] @ a) d z = Some (g1, g2, g3, g4)"
    by blast
  from rangeTail_Some [OF d(3)] a(1) d(1,2) show ?thesis by simp
qed

lemma parseSerialRange_by_groups:
  assumes "rangeRegex s = Some (g1, g2, g3, g4)"
  shows "parseSerialRange s =
     (if digitsValue g2 > digitsValue g4 then Inr [trim s]
      else if int (digitsValue g4) - int (digitsValue g2) \<ge> 100 then Inl RangeTooLarge
      else Inr (map (\<lambda>j. g1 @ padStart (length g2) (numToString j))
                  [int (digitsValue g2)..int (digitsValue g4)]))"
proof -
  from rangeRegex_Some [OF assms]
  have "parseInt g2 = Some (int (digitsValue g2))" "parseInt g4 = Some (int (digitsValue g4))"
    by (simp_all add: parseInt_digits)
  with assms show ?thesis
    by (simp add: parseSerialRange_def rangeLoop_map)
qed

lemma parseSerialRange_at_most_100:
  assumes "parseSerialRange s = Inr xs"
  shows "1 \<le> length xs \<and> length xs \<le> 100"
proof (cases "rangeRegex s")
  case None
  with assms show ?thesis by (auto simp: parseSerialRange_def)
next
  case (Some m)
  obtain g1 g2 g3 g4 where "m = (g1, g2, g3, g4)" by (cases m)
  with Some assms show ?thesis
    by (auto simp: parseSerialRange_by_groups split: if_splits)
qed

lemma parseSerialRange_placeholder_example:
  "parseSerialRange ''SN00001~00010'' =
     Inr [''SN00001'', ''SN00002'', ''SN00003'', ''SN00004'', ''SN00005'',
          ''SN00006'', ''SN00007'', ''SN00008'', ''SN00009'', ''SN00010'']"
  by code_simp

lemma parseSerialRange_too_large_example:
  "parseSerialRange ''SN00001~00105'' = Inl RangeTooLarge"
  by code_simp

lemma parseSerialRange_no_match: "rangeRegex s = None \<Longrightarrow> parseSerialRange s = Inr [trim s]"
  by (simp add: parseSerialRange_def)

lemma parseSerialRange_bare_end:
  assumes pA: "pA \<noteq> []" "list_all plainChar pA"
    and ds: "ds \<noteq> []" "list_all isDigit ds"
    and de: "isDigit d" "de \<noteq> []" "list_all isDigit de"
  shows "parseSerialRange (pA @ ds @ ''~'' @ d # de) =
     (if digitsValue ds > digitsValue de then Inr [pA @ ds @ ''~'' @ d # de]
      else if int (digitsValue de) - int (digitsValue ds) \<ge> 100 then Inl RangeTooLarge
      else Inr (map (\<lambda>j. pA @ padStart (length ds) (numToString j))
                  [int (digitsValue ds)..int (digitsValue de)]))"
proof -
  let ?s = "pA @ ds @ ''~'' @ d # de"
  have "\<not> isSpace (hd ?s)" using pA by (cases pA) (auto simp: plainChar_def)
  moreover have "\<not> isSpace (last ?s)"
    using de by (simp add: list_all_iff isDigit_not_space)
  ultimately have t: "trim ?s = ?s" using pA(1) by (intro trim_id) simp_all
  show ?thesis
    using rangeRegex_bare_end [OF pA ds de] parseInt_digits [OF ds] parseInt_digits [OF de(2,3)] t
    by (simp add: parseSerialRange_def rangeLoop_map)
qed

text \<open>
  Claim C4. The specification's range pattern is \<open>prefix digits ~ [prefix] digits\<close>, and the
  expansion is to run from the start number to the end number. On the form field's own
  example \<open>SN00001~00010\<close> it does. But the optional prefix group \<open>(.+?)?\<close> is tried before
  the end digits and \<open>.\<close> accepts a digit, so an end token of two or more bare digits loses
  its first digit to that group (\<open>rangeRegex_bare_end\<close>): \<open>SN1~25\<close> expands to five serials,
  not twenty-five, and \<open>SN10~20\<close>, read as 10 to 0, comes back as one literal serial.
\<close>

theorem parseSerialRange_bare_end_drops_digit:
  "parseSerialRange ''SN1~25'' = Inr [''SN1'', ''SN2'', ''SN3'', ''SN4'', ''SN5'']
    \<and> parseSerialRange ''SN10~20'' = Inr [''SN10~20'']"
  by code_simp

section \<open>Submitting a transaction\<close>

lemma currentStock_calculateStock: "currentStock it = calculateStock it"
proof -
  have "stockStep = (\<lambda>acc t. if t_type t = Purchase then acc + quantity t else acc - quantity t)"
    by (intro ext) (simp add: stockStep_def)
  then show ?thesis by (simp add: currentStock_def calculateStock_def)
qed

lemma appendRows_Nil: "appendRows itemId [] its = its"
  by (simp add: appendRows_def map_idI)

lemma appendRows_appendRows:
  "appendRows itemId rows2 (appendRows itemId rows1 its) = appendRows itemId (rows1 @ rows2) its"
  by (simp add: appendRows_def)

lemma App_handleAddTransaction_appendRows:
  "App_handleAddTransaction newId itemId tr its = appendRows itemId [tr\<lparr>t_id := newId\<rparr>] its"
  by (simp add: App_handleAddTransaction_def appendRows_def)

lemma rangeRows_Cons:
  "rangeRows ids now st k (s # ss) =
     (rangeTransaction (now k) st s)\<lparr>t_id := ids k\<rparr> # rangeRows ids now st (Suc k) ss"
proof -
  have n: "k + length (s # ss) = Suc k + length ss" by simp
  have "[k..<Suc k + length ss] = k # [Suc k..<Suc k + length ss]"
    by (rule upt_conv_Cons) simp
  then have e: "[k..<k + length (s # ss)] = k # [Suc k..<Suc k + length ss]"
    by (simp only: n)
  show ?thesis unfolding rangeRows_def e by simp
qed

lemma addEach_appendRows:
  "addEach ids now st itemId k ss its = appendRows itemId (rangeRows ids now st k ss) its"
proof (induction ss arbitrary: k its)
  case Nil
  show ?case by (simp add: rangeRows_def appendRows_Nil)
next
  case (Cons s ss)
  show ?case
    by (simp add: Cons.IH App_handleAddTransaction_appendRows appendRows_appendRows rangeRows_Cons)
qed





text \<open>
  The checks of a submission in order: each failed check raises its alert and leaves the
  state as it was; a submission that passes them all appends its rows.
\<close>

lemma Modal_handleAddTransaction_accept:
  assumes sel: "selectedItem st = Some it"
    and ts: "targetSerials it st = Inr ts"
    and nodup: "duplicatesOf (allUsedSerials (items st)) ts = []"
    and pos: "0 < submissionCount it st ts"
    and stock: "transactionType st = Release \<longrightarrow> submissionCount it st ts \<le> currentStock it"
  shows "Modal_handleAddTransaction ids now st =
     (if isRange it st
      then (Some (AlertRegistered (length ts)),
            resetForm (allUsedSerials (items st) @ ts)
              (st\<lparr>items := appendRows (i_id it) (rangeRows ids now st 0 ts) (items st)\<rparr>))
      else (None,
            resetForm (allUsedSerials (items st) @ ts)
              (st\<lparr>items := appendRows (i_id it)
                   [(singleTransaction (now 0) it st (submissionCount it st ts))\<lparr>t_id := ids 0\<rparr>]
                   (items st)\<rparr>)))"
  using assms
  by (auto simp: Modal_handleAddTransaction_def Let_def addEach_appendRows
      App_handleAddTransaction_appendRows)




lemma rejected_unchanged: "rejected r st \<Longrightarrow> snd r = st"
  by (simp add: rejected_def)

section \<open>Outbound submissions and the derived stock\<close>




section \<open>Product submissions and the serial registry\<close>




section \<open>Positive quantities\<close>

text \<open>
  Both creation paths keep every stored quantity positive: \<open>handleAddItem\<close> seeds a row only
  for a positive initial quantity, and \<open>handleAddTransaction\<close> turns down a count that is
  not positive.
\<close>

lemma quantitiesPositive_Cons:
  "quantitiesPositive (it # its) =
     (list_all (\<lambda>t. 0 < quantity t) (transactions it) \<and> quantitiesPositive its)"
  by (simp add: quantitiesPositive_def allTransactions_def)

lemma quantitiesPositive_appendRows:
  "quantitiesPositive its \<Longrightarrow> list_all (\<lambda>t. 0 < quantity t) rows
    \<Longrightarrow> quantitiesPositive (appendRows itemId rows its)"
  by (induction its) (auto simp: quantitiesPositive_Cons appendRows_def quantitiesPositive_def allTransactions_def)

lemma handleAddItem_quantitiesPositive:
  "quantitiesPositive prev
    \<Longrightarrow> quantitiesPositive (handleAddItem itemId transId now itemData initialQuantity prev)"
  by (simp add: handleAddItem_def Let_def quantitiesPositive_Cons)

lemma Modal_handleAddTransaction_quantitiesPositive:
  assumes "quantitiesPositive (items st)"
  shows "quantitiesPositive (items (snd (Modal_handleAddTransaction ids now st)))"
proof (cases "items (snd (Modal_handleAddTransaction ids now st)) = items st")
  case True
  with assms show ?thesis by simp
next
  case False
  then obtain it where sel: "selectedItem st = Some it"
    by (cases "selectedItem st") (auto simp: Modal_handleAddTransaction_def)
  from False obtain ts where ts: "targetSerials it st = Inr ts"
    using sel by (cases "targetSerials it st") (auto simp: Modal_handleAddTransaction_def)
  have nd: "duplicatesOf (allUsedSerials (items st)) ts = []"
    using False sel ts by (auto simp: Modal_handleAddTransaction_def Let_def split: if_splits)
  have pos: "0 < submissionCount it st ts"
    using False sel ts nd by (auto simp: Modal_handleAddTransaction_def Let_def split: if_splits)
  have stk: "transactionType st = Release \<longrightarrow> submissionCount it st ts \<le> currentStock it"
    using False sel ts nd pos by (auto simp: Modal_handleAddTransaction_def Let_def split: if_splits)
  have r: "list_all (\<lambda>t. 0 < quantity t) (rangeRows ids now st 0 ts)"
    by (auto simp: rangeRows_def rangeTransaction_def list_all_iff)
  have s: "list_all (\<lambda>t. 0 < quantity t)
      [(singleTransaction (now 0) it st (submissionCount it st ts))\<lparr>t_id := ids 0\<rparr>]"
    using pos by (simp add: singleTransaction_def)
  show ?thesis
    using assms r s
    by (simp add: Modal_handleAddTransaction_accept [OF sel ts nd pos stk] resetForm_def
        quantitiesPositive_appendRows)
qed

text \<open>
  Claim C6. The edit of a row has no such check: \<open>handleTransEditChange\<close> turns the typed
  text into \<open>parseInt(value, 10) || 0\<close> and \<open>handleActionConfirm\<close> hands the buffer to
  \<open>handleUpdateTransaction\<close> as it is. Typing \<open>0\<close> into the quantity of row \<open>t2\<close> and
  confirming with the right password stores a row with quantity 0.
\<close>

theorem edit_stores_nonpositive_quantity:
  "quantitiesPositive (items (openModal [gadget2] ''i2'' Purchase ''SN00003'' []))
    \<and> map quantity (allTransactions (items (snd
          (editRow (ledgerRow ''t2'' Purchase 1 (Some ''SN00002'')) FQuantity ''0'' ''0000''
             (openModal [gadget2] ''i2'' Purchase ''SN00003'' []))))) = [1, 0]
    \<and> \<not> quantitiesPositive (items (snd
          (editRow (ledgerRow ''t2'' Purchase 1 (Some ''SN00002'')) FQuantity ''0'' ''0000''
             (openModal [gadget2] ''i2'' Purchase ''SN00003'' []))))"
  by code_simp

section \<open>Unique serials\<close>

text \<open>
  Claim C7. The edit of a row does not consult the registry either: changing the serial
  of row \<open>t2\<close> to the serial of row \<open>t1\<close> and confirming leaves two rows with the serial
  \<open>SN00001\<close>, although the submission of a new row with that serial is turned down.
\<close>

theorem edit_stores_duplicate_serial:
  "serialsUnique (items (openModal [gadget2] ''i2'' Purchase ''SN00003'' []))
    \<and> map serialNumber (allTransactions (items (snd
          (editRow (ledgerRow ''t2'' Purchase 1 (Some ''SN00002'')) FSerialNumber ''sn00001'' ''0000''
             (openModal [gadget2] ''i2'' Purchase ''SN00003'' [])))))
        = [Some ''SN00001'', Some ''SN00001'']
    \<and> \<not> serialsUnique (items (snd
          (editRow (ledgerRow ''t2'' Purchase 1 (Some ''SN00002'')) FSerialNumber ''sn00001'' ''0000''
             (openModal [gadget2] ''i2'' Purchase ''SN00003'' []))))"
  by code_simp

text \<open>
  The submission of a new row compares the trimmed input with the registry but stores the
  untrimmed one, so a serial typed with a leading blank passes the check a second time.
\<close>

lemma padded_serial_registered_twice:
  "fst (Modal_handleAddTransaction sampleIds sampleNow
          (typeQuantity ''1'' (typeSerial '' sn1''
             (snd (Modal_handleAddTransaction sampleIds sampleNow
                (typeQuantity ''1'' (typeSerial '' sn1'' (openModal [gadget] ''i2'' Purchase [] [])))))))) = None
   \<and> map serialNumber (allTransactions (items (snd (Modal_handleAddTransaction sampleIds sampleNow
          (typeQuantity ''1'' (typeSerial '' sn1''
             (snd (Modal_handleAddTransaction sampleIds sampleNow
                (typeQuantity ''1'' (typeSerial '' sn1'' (openModal [gadget] ''i2'' Purchase [] [])))))))))))
       = [Some '' SN1'', Some '' SN1'']"
  by code_simp

section \<open>The password gate\<close>




section \<open>Local persistence and the debounced push\<close>

lemma setItems_fields:
  "s_items (setItems new s) = new"
  "localStore (setItems new s) = Some new"
  "timer (setItems new s) = (if new = [] then None else Some (clock s + QUIET_PERIOD, new))"
  "clock (setItems new s) = clock s"
  "pushes (setItems new s) = pushes s"
  "kvConfigured (setItems new s) = kvConfigured s"
  by (simp_all add: setItems_def itemsEffect_def Let_def)

lemma settled_setItems: "settled (setItems new s)"
  by (simp add: settled_def setItems_fields)

lemma advance_short:
  assumes "settled s" "gap < QUIET_PERIOD"
  shows "pushes (advance gap s) = pushes s" "kvConfigured (advance gap s) = kvConfigured s"
    "s_items (advance gap s) = s_items s"
  using assms by (auto simp: settled_def advance_def Let_def split: if_splits)

lemma burst_quiet:
  assumes "settled s" "\<forall>(gap, new) \<in> set changes. gap < QUIET_PERIOD"
  shows "settled (burst changes s) \<and> pushes (burst changes s) = pushes s
    \<and> kvConfigured (burst changes s) = kvConfigured s
    \<and> s_items (burst changes s) = (if changes = [] then s_items s else snd (last changes))"
  using assms
proof (induction changes arbitrary: s)
  case Nil
  then show ?case by simp
next
  case (Cons c changes)
  obtain gap new where c: "c = (gap, new)" by (cases c)
  with Cons.prems have gap: "gap < QUIET_PERIOD" by simp
  let ?s = "setItems new (advance gap s)"
  have "settled (burst changes ?s) \<and> pushes (burst changes ?s) = pushes ?s
    \<and> kvConfigured (burst changes ?s) = kvConfigured ?s
    \<and> s_items (burst changes ?s) = (if changes = [] then s_items ?s else snd (last changes))"
    using Cons.prems(2) by (intro Cons.IH settled_setItems) simp
  then show ?case
    using c advance_short [OF Cons.prems(1) gap] by (simp add: setItems_fields)
qed

lemma advance_long:
  assumes "settled s" "QUIET_PERIOD \<le> dt"
  shows "pushes (advance dt s) =
           pushes s @ (if s_items s \<noteq> [] \<and> kvConfigured s then [s_items s] else [])"
    and "timer (advance dt s) = None"
  using assms by (auto simp: settled_def advance_def saveToServer_def Let_def split: if_splits)

text \<open>
  Claim C9, as the code has it. After every change of the collection the whole collection
  is written to the local store at once, and the timer of the previous change is
  cancelled; for a non-empty collection a push of the whole collection is scheduled one
  quiet period after the change, for an empty collection none is. So after a burst of
  changes, each less than a quiet period after the one before, followed by a quiet
  period, exactly one push has been added, carrying the final collection, when that
  collection is not empty and the store is configured, and none otherwise; the local
  store holds the final collection in either case.
\<close>

theorem change_persists_and_schedules_push:
  "localStore (setItems new s) = Some new
   \<and> timer (setItems new s) = (if new = [] then None else Some (clock s + QUIET_PERIOD, new))
   \<and> pushes (setItems new s) = pushes s
   \<and> ((\<forall>(gap, x) \<in> set changes. gap < QUIET_PERIOD) \<and> QUIET_PERIOD \<le> dt \<longrightarrow>
        pushes (advance dt (burst changes (setItems new s))) =
          pushes s @ (if s_items (burst changes (setItems new s)) \<noteq> [] \<and> kvConfigured s
                      then [s_items (burst changes (setItems new s))] else [])
        \<and> localStore (burst changes (setItems new s)) = Some (s_items (burst changes (setItems new s))))"
proof (intro conjI impI)
  show "localStore (setItems new s) = Some new"
    and "timer (setItems new s) = (if new = [] then None else Some (clock s + QUIET_PERIOD, new))"
    and "pushes (setItems new s) = pushes s"
    by (simp_all add: setItems_fields)
next
  assume a: "(\<forall>(gap, x) \<in> set changes. gap < QUIET_PERIOD) \<and> QUIET_PERIOD \<le> dt"
  let ?b = "burst changes (setItems new s)"
  from a have q: "settled ?b \<and> pushes ?b = pushes (setItems new s)
      \<and> kvConfigured ?b = kvConfigured (setItems new s)
      \<and> s_items ?b = (if changes = [] then s_items (setItems new s) else snd (last changes))"
    by (intro burst_quiet settled_setItems) simp
  with a show "pushes (advance dt ?b) =
      pushes s @ (if s_items ?b \<noteq> [] \<and> kvConfigured s then [s_items ?b] else [])"
    using advance_long(1) [of ?b dt] by (simp add: setItems_fields)
  show "localStore ?b = Some (s_items ?b)"
  proof (cases changes rule: rev_cases)
    case Nil
    then show ?thesis by (simp add: setItems_fields)
  next
    case (snoc cs c)
    obtain gap x where "c = (gap, x)" by (cases c)
    have app: "burst (xs @ ys) t = burst ys (burst xs t)" for xs ys t
      by (induction xs arbitrary: t) auto
    show ?thesis
      using snoc \<open>c = (gap, x)\<close> by (simp add: app setItems_fields)
  qed
qed

theorem change_persists_and_schedules_push_witness:
  "pushes (advance 2000 (burst [(300, [gadget]), (1500, [gadget, widget])] (setItems [widget] startSync)))
      = [[gadget, widget]]
   \<and> localStore (burst [(300, [gadget]), (1500, [gadget, widget])] (setItems [widget] startSync))
      = Some [gadget, widget]"
proof -
  have h: "(\<forall>(gap, x) \<in> set [(300, [gadget]), (1500, [gadget, widget])]. gap < QUIET_PERIOD)
      \<and> QUIET_PERIOD \<le> 2000"
    by (simp add: QUIET_PERIOD_def)
  have v: "s_items (burst [(300, [gadget]), (1500, [gadget, widget])] (setItems [widget] startSync))
      = [gadget, widget]"
    by (simp add: setItems_fields)
  have w: "pushes startSync = []" "kvConfigured startSync = True"
    by code_simp+
  let ?b = "burst [(300, [gadget]), (1500, [gadget, widget])] (setItems [widget] startSync)"
  from change_persists_and_schedules_push
      [of "[widget]" startSync "[(300, [gadget]), (1500, [gadget, widget])]" 2000] h
  have "pushes (advance 2000 ?b) =
      pushes startSync @ (if s_items ?b \<noteq> [] \<and> kvConfigured startSync then [s_items ?b] else [])
    \<and> localStore ?b = Some (s_items ?b)"
    by blast
  then show ?thesis unfolding v w by simp
qed

text \<open>
  Removing the last item is a change of the collection that schedules no push: the local
  store holds the empty collection, no timer is pending, and nothing is sent.
\<close>

theorem empty_collection_never_pushed_counterexample:
  "s_items (setItems [] (setItems [widget] startSync)) = []
   \<and> localStore (setItems [] (setItems [widget] startSync)) = Some []
   \<and> timer (setItems [] (setItems [widget] startSync)) = None
   \<and> pushes (advance 2000 (setItems [] (setItems [widget] startSync))) = []"
  by code_simp

end
